theory Spec2Isabelle
  imports Complex_Main
begin

section \<open>Two-coil spring nest with a defined design length (CoilSpringDesign.py)\<close>

text \<open>
  The embedding follows \<^verbatim>\<open>class TwoCoilSetLength\<close>. The vector \<^verbatim>\<open>x\<close> is a NumPy array, as
  the docstring of \<^verbatim>\<open>error\<close> says and as \<^verbatim>\<open>scipy.optimize.root\<close> passes it, so its entries and
  everything computed from them are \<^verbatim>\<open>numpy.float64\<close> scalars. Their arithmetic raises
  nothing: the one division the class performs, \<^verbatim>\<open>F2/(Ro + Ri)\<close>, gives an infinity or a NaN
  on a zero divisor (with a warning). The only exception the class itself can raise is the
  ValueError of unpacking a vector that does not have exactly seven entries.

  Two models of the arithmetic are given. The first computes in exact real numbers; it
  says which expression every result is. The second, further down, rounds the result of
  every operation to binary64, as the code does.
\<close>

datatype pyerr = ValueError

text \<open>
  A \<^verbatim>\<open>float64\<close> result: a number, or a non-finite value (an infinity or a NaN; the model
  does not tell them apart). In the exact model the only source of a non-finite value is
  the division by zero; overflow is not part of it.
\<close>

datatype num = Fin real | NonFinite

definition np_div :: "real \<Rightarrow> real \<Rightarrow> num" where
  "np_div a b = (if b = 0 then NonFinite else Fin (a / b))"

fun np_sub :: "num \<Rightarrow> num \<Rightarrow> num" where
  "np_sub (Fin a) (Fin b) = Fin (a - b)"
| "np_sub _ _ = NonFinite"

subsection \<open>External collaborators, taken as parameters\<close>

text \<open>
  \<^verbatim>\<open>self.mat\<close>: the material descriptor. The class reads two moduli and calls one method.
\<close>

record material =
  mat_G :: real
  mat_E :: real
  solid_stress_limit :: "real \<Rightarrow> real"

text \<open>
  \<^verbatim>\<open>import helicoil as hc\<close>: the physics library is not part of the repository. The six
  functions the class calls are the fields of this record; they are taken as total
  functions on the reals. The type \<open>'c\<close> is whatever \<^verbatim>\<open>hc.coil_data\<close> returns.
\<close>

record 'c helicoil =
  hc_solid_length :: "real \<Rightarrow> real \<Rightarrow> real"
  hc_Sa_min_reserve_length :: "real \<Rightarrow> real \<Rightarrow> real \<Rightarrow> real"
  hc_axial_rate :: "real \<Rightarrow> real \<Rightarrow> real \<Rightarrow> real \<Rightarrow> real"
  hc_axial_stress_static :: "real \<Rightarrow> real \<Rightarrow> real \<Rightarrow> real"
  hc_buckling_deflection :: "real \<Rightarrow> real \<Rightarrow> real \<Rightarrow> real \<Rightarrow> real \<Rightarrow> real"
  hc_coil_data :: "string \<Rightarrow> real \<Rightarrow> real \<Rightarrow> real \<Rightarrow> real \<Rightarrow> real \<Rightarrow> real
                     \<Rightarrow> real \<Rightarrow> real \<Rightarrow> material \<Rightarrow> 'c"

text \<open>
  \<^verbatim>\<open>scipy.optimize.root\<close> returns an OptimizeResult; \<^verbatim>\<open>get_solution\<close> reads \<^verbatim>\<open>sol.success\<close>
  and \<^verbatim>\<open>sol.x\<close>, the other fields are the solver's diagnostics. The root finder itself is
  a parameter of \<open>get_solution\<close>: it receives the residual function and the initial guess
  and either raises or returns such a result.
\<close>

record sol =
  sol_x :: "real list"
  sol_success :: bool
  sol_status :: int
  sol_message :: string
  sol_fun :: "num list"
  sol_nfev :: nat

type_synonym root_finder =
  "(real list \<Rightarrow> pyerr + num list) \<Rightarrow> real list \<Rightarrow> pyerr + sol"

subsection \<open>The configuration: \<^verbatim>\<open>__init__\<close>\<close>

record TwoCoilSetLength =
  self_mat :: material
  self_end_con :: real
  self_R :: real
  self_F :: real
  self_L :: real
  self_coil_gap :: real
  self_max_comp :: real
  self_lo_cycle_amp :: real
  self_hi_cycle_amp :: real
  self_comp_res :: real
  self_solid_str_res :: real
  self_x0 :: "real list"

text \<open>The constructor has twelve assignments and nothing else; the result type keeps
  room for an exception that the source never raises.\<close>

definition init :: "material \<Rightarrow> real \<Rightarrow> real \<Rightarrow> real \<Rightarrow> real \<Rightarrow> real \<Rightarrow> real \<Rightarrow> real
    \<Rightarrow> real \<Rightarrow> real \<Rightarrow> real \<Rightarrow> real list \<Rightarrow> pyerr + TwoCoilSetLength" where
  "init material axial_rate design_load design_length radial_coil_gap max_compression
        lo_cycle_defln_amplitude hi_cycle_defln_amplitude end_condition
        compression_defln_reserve solid_stress_reserve estimated_solution =
     Inr \<lparr> self_mat = material,
           self_end_con = end_condition,
           self_R = axial_rate,
           self_F = design_load,
           self_L = design_length,
           self_coil_gap = radial_coil_gap,
           self_max_comp = max_compression,
           self_lo_cycle_amp = lo_cycle_defln_amplitude,
           self_hi_cycle_amp = hi_cycle_defln_amplitude,
           self_comp_res = compression_defln_reserve,
           self_solid_str_res = solid_stress_reserve,
           self_x0 = estimated_solution \<rparr>"

subsection \<open>The residual function: \<^verbatim>\<open>error\<close>\<close>

text \<open>Lines 57-58 of \<^verbatim>\<open>error\<close>: the two mean diameters.\<close>

definition error_geometry :: "TwoCoilSetLength \<Rightarrow> real \<Rightarrow> real \<Rightarrow> real \<Rightarrow> real \<times> real" where
  "error_geometry self OD do di =
     (let Do = OD - do;
          Di = Do - do - 2 * self_coil_gap self - di
      in (Do, Di))"

text \<open>Lines 72-79 of \<^verbatim>\<open>error\<close>: the free-length branch, giving \<open>(Fo1, Fi1, L1)\<close>.\<close>

definition error_preload :: "real \<Rightarrow> real \<Rightarrow> real \<Rightarrow> real \<Rightarrow> real \<times> real \<times> real" where
  "error_preload Ro Ri L0o L0i =
     (if L0o > L0i then (Ro * (L0o - L0i), 0, L0i)
      else (0, Ri * (L0i - L0o), L0o))"

fun error :: "'c helicoil \<Rightarrow> TwoCoilSetLength \<Rightarrow> real list \<Rightarrow> pyerr + num list" where
  "error hc self [OD, do, No, L0o, di, Ni, L0i] =
     (let min_service_len = self_L self - self_max_comp self;
          min_length = min_service_len - self_comp_res self;
          (Do, Di) = error_geometry self OD do di;
          Lco = hc_solid_length hc No do;
          Lci = hc_solid_length hc Ni di;
          Sao = hc_Sa_min_reserve_length hc Do do No;
          Sai = hc_Sa_min_reserve_length hc Di di Ni;
          minLength_o = Lco + Sao;
          minLength_i = Lci + Sai;
          Ro = hc_axial_rate hc (mat_G (self_mat self)) do Do No;
          Ri = hc_axial_rate hc (mat_G (self_mat self)) di Di Ni;
          (Fo1, Fi1, L1) = error_preload Ro Ri L0o L0i;
          F2 = self_F self - Fo1 - Fi1;
          L_at_F = np_sub (Fin L1) (np_div F2 (Ro + Ri));
          solidStr_o = hc_axial_stress_static hc Do do (Ro * (L0o - Lco));
          solidStr_i = hc_axial_stress_static hc Di di (Ri * (L0i - Lci));
          solidStrRes_o = solid_stress_limit (self_mat self) do - solidStr_o;
          solidStrRes_i = solid_stress_limit (self_mat self) di - solidStr_i;
          buck_defln = hc_buckling_deflection hc (mat_G (self_mat self))
                         (mat_E (self_mat self)) Di L0i (self_end_con self);
          buckling_len = L0i - buck_defln
      in Inr [Fin (Ro + Ri - self_R self),
              Fin (minLength_o - min_length),
              Fin (minLength_i - min_length),
              np_sub L_at_F (Fin (self_L self)),
              Fin (solidStrRes_o - self_solid_str_res self),
              Fin (solidStrRes_i - self_solid_str_res self),
              Fin (buckling_len - min_service_len)])"
| "error hc self _ = Inl ValueError"

subsection \<open>Solving and post-processing: \<^verbatim>\<open>get_solution\<close>\<close>

text \<open>
  The three values \<^verbatim>\<open>get_solution\<close> returns are untyped in the source: the second is the
  solver's result on failure and a coil record on success, the third is \<^verbatim>\<open>None\<close> on
  failure.
\<close>

datatype 'c slot = SolverResult sol | CoilData 'c | PyNone

text \<open>Lines 118-119 of \<^verbatim>\<open>get_solution\<close>: the two mean diameters, written a second time.\<close>

definition solution_geometry :: "TwoCoilSetLength \<Rightarrow> real \<Rightarrow> real \<Rightarrow> real \<Rightarrow> real \<times> real" where
  "solution_geometry self OD do di =
     (let Do = OD - do;
          Di = Do - do - 2 * self_coil_gap self - di
      in (Do, Di))"

text \<open>Lines 124-131 of \<^verbatim>\<open>get_solution\<close>: the free-length branch, written a second time.\<close>

definition solution_preload :: "real \<Rightarrow> real \<Rightarrow> real \<Rightarrow> real \<Rightarrow> real \<times> real \<times> real" where
  "solution_preload Ro Ri L0o L0i =
     (if L0o > L0i then (Ro * (L0o - L0i), 0, L0i)
      else (0, Ri * (L0i - L0o), L0o))"

text \<open>Lines 116-134: from the converged vector to the mean diameters and the two carried
  loads \<open>(Do, Di, Fo, Fi)\<close>.\<close>

definition solution_forces ::
  "'c helicoil \<Rightarrow> TwoCoilSetLength \<Rightarrow> real \<Rightarrow> real \<Rightarrow> real \<Rightarrow> real \<Rightarrow> real \<Rightarrow> real \<Rightarrow> real
     \<Rightarrow> real \<times> real \<times> real \<times> real" where
  "solution_forces hc self OD do No L0o di Ni L0i =
     (let (Do, Di) = solution_geometry self OD do di;
          Ro = hc_axial_rate hc (mat_G (self_mat self)) do Do No;
          Ri = hc_axial_rate hc (mat_G (self_mat self)) di Di Ni;
          (Fo1, Fi1, L1) = solution_preload Ro Ri L0o L0i;
          Fo = Fo1 + Ro * (L1 - self_L self);
          Fi = Fi1 + Ri * (L1 - self_L self)
      in (Do, Di, Fo, Fi))"

text \<open>Lines 116-144: everything after the success test.\<close>

fun post_process ::
  "'c helicoil \<Rightarrow> TwoCoilSetLength \<Rightarrow> real list \<Rightarrow> pyerr + bool \<times> 'c slot \<times> 'c slot" where
  "post_process hc self [OD, do, No, L0o, di, Ni, L0i] =
     (let (Do, Di, Fo, Fi) = solution_forces hc self OD do No L0o di Ni L0i;
          L_min = self_L self - self_max_comp self;
          OC_data = hc_coil_data hc ''Outer Coil'' do Do No Fo (self_L self) L_min
                      (self_lo_cycle_amp self) (self_hi_cycle_amp self) (self_mat self);
          IC_data = hc_coil_data hc ''Inner Coil'' di Di Ni Fi (self_L self) L_min
                      (self_lo_cycle_amp self) (self_hi_cycle_amp self) (self_mat self)
      in Inr (True, CoilData OC_data, CoilData IC_data))"
| "post_process hc self _ = Inl ValueError"

definition get_solution ::
  "'c helicoil \<Rightarrow> root_finder \<Rightarrow> TwoCoilSetLength \<Rightarrow> pyerr + bool \<times> 'c slot \<times> 'c slot" where
  "get_solution hc root_fn self =
     (case root_fn (error hc self) (self_x0 self) of
        Inl e \<Rightarrow> Inl e
      | Inr sol \<Rightarrow>
          if \<not> sol_success sol then Inr (False, SolverResult sol, PyNone)
          else post_process hc self (sol_x sol))"

subsection \<open>The same arithmetic, rounded\<close>

text \<open>
  The code computes in binary64. \<open>f64\<close> rounds a real number to the nearest double, ties
  to even: \<open>bexp\<close> is the binary exponent of the number (not below that of the smallest
  normal double), and the number is rounded to an integer multiple of \<open>2 powi (bexp - 52)\<close>.
  Results beyond the largest double are not modelled.
\<close>

definition round_even :: "real \<Rightarrow> int" where
  "round_even q =
     (let f = \<lfloor>q\<rfloor>; r = q - of_int f
      in if r < 1/2 then f else if 1/2 < r then f + 1 else if even f then f else f + 1)"

fun bexp_up :: "nat \<Rightarrow> real \<Rightarrow> int" where
  "bexp_up 0 a = 0"
| "bexp_up (Suc n) a = (if a < 2 then 0 else 1 + bexp_up n (a / 2))"

fun bexp_down :: "nat \<Rightarrow> real \<Rightarrow> int" where
  "bexp_down 0 a = 0"
| "bexp_down (Suc n) a = (if 1 \<le> a then 0 else bexp_down n (2 * a) - 1)"

definition bexp :: "real \<Rightarrow> int" where
  "bexp a = (if 1 \<le> a then bexp_up 1023 a else bexp_down 1022 a)"

definition f64 :: "real \<Rightarrow> real" where
  "f64 x = (if x = 0 then 0
            else let u = 2 powi (bexp \<bar>x\<bar> - 52) in of_int (round_even (x / u)) * u)"

text \<open>
  The arithmetic of \<^verbatim>\<open>error\<close> and of lines 116-134 of \<^verbatim>\<open>get_solution\<close> once more, operation by
  operation in the order Python evaluates them, with the rounding \<open>rd\<close> applied to every
  result. With \<open>rd = f64\<close> this is what the code computes; with the identity it is the
  exact model above.
\<close>

definition np_div_rounded :: "(real \<Rightarrow> real) \<Rightarrow> real \<Rightarrow> real \<Rightarrow> num" where
  "np_div_rounded rd a b = (if b = 0 then NonFinite else Fin (rd (a / b)))"

fun np_sub_rounded :: "(real \<Rightarrow> real) \<Rightarrow> num \<Rightarrow> num \<Rightarrow> num" where
  "np_sub_rounded rd (Fin a) (Fin b) = Fin (rd (a - b))"
| "np_sub_rounded rd _ _ = NonFinite"

fun error_rounded ::
  "(real \<Rightarrow> real) \<Rightarrow> 'c helicoil \<Rightarrow> TwoCoilSetLength \<Rightarrow> real list \<Rightarrow> pyerr + num list" where
  "error_rounded rd hc self [OD, do, No, L0o, di, Ni, L0i] =
     (let min_service_len = rd (self_L self - self_max_comp self);
          min_length = rd (min_service_len - self_comp_res self);
          Do = rd (OD - do);
          Di = rd (rd (rd (Do - do) - rd (2 * self_coil_gap self)) - di);
          Lco = hc_solid_length hc No do;
          Lci = hc_solid_length hc Ni di;
          Sao = hc_Sa_min_reserve_length hc Do do No;
          Sai = hc_Sa_min_reserve_length hc Di di Ni;
          minLength_o = rd (Lco + Sao);
          minLength_i = rd (Lci + Sai);
          Ro = hc_axial_rate hc (mat_G (self_mat self)) do Do No;
          Ri = hc_axial_rate hc (mat_G (self_mat self)) di Di Ni;
          (Fo1, Fi1, L1) =
             (if L0o > L0i then (rd (Ro * rd (L0o - L0i)), 0, L0i)
              else (0, rd (Ri * rd (L0i - L0o)), L0o));
          F2 = rd (rd (self_F self - Fo1) - Fi1);
          L_at_F = np_sub_rounded rd (Fin L1) (np_div_rounded rd F2 (rd (Ro + Ri)));
          solidStr_o = hc_axial_stress_static hc Do do (rd (Ro * rd (L0o - Lco)));
          solidStr_i = hc_axial_stress_static hc Di di (rd (Ri * rd (L0i - Lci)));
          solidStrRes_o = rd (solid_stress_limit (self_mat self) do - solidStr_o);
          solidStrRes_i = rd (solid_stress_limit (self_mat self) di - solidStr_i);
          buck_defln = hc_buckling_deflection hc (mat_G (self_mat self))
                         (mat_E (self_mat self)) Di L0i (self_end_con self);
          buckling_len = rd (L0i - buck_defln)
      in Inr [Fin (rd (rd (Ro + Ri) - self_R self)),
              Fin (rd (minLength_o - min_length)),
              Fin (rd (minLength_i - min_length)),
              np_sub_rounded rd L_at_F (Fin (self_L self)),
              Fin (rd (solidStrRes_o - self_solid_str_res self)),
              Fin (rd (solidStrRes_i - self_solid_str_res self)),
              Fin (rd (buckling_len - min_service_len))])"
| "error_rounded rd hc self _ = Inl ValueError"

definition solution_forces_rounded ::
  "(real \<Rightarrow> real) \<Rightarrow> 'c helicoil \<Rightarrow> TwoCoilSetLength \<Rightarrow> real \<Rightarrow> real \<Rightarrow> real \<Rightarrow> real
     \<Rightarrow> real \<Rightarrow> real \<Rightarrow> real \<Rightarrow> real \<times> real \<times> real \<times> real" where
  "solution_forces_rounded rd hc self OD do No L0o di Ni L0i =
     (let Do = rd (OD - do);
          Di = rd (rd (rd (Do - do) - rd (2 * self_coil_gap self)) - di);
          Ro = hc_axial_rate hc (mat_G (self_mat self)) do Do No;
          Ri = hc_axial_rate hc (mat_G (self_mat self)) di Di Ni;
          (Fo1, Fi1, L1) =
             (if L0o > L0i then (rd (Ro * rd (L0o - L0i)), 0, L0i)
              else (0, rd (Ri * rd (L0i - L0o)), L0o));
          Fo = rd (Fo1 + rd (Ro * rd (L1 - self_L self)));
          Fi = rd (Fi1 + rd (Ri * rd (L1 - self_L self)))
      in (Do, Di, Fo, Fi))"

subsection \<open>A stand-in library and a trial root finder\<close>

text \<open>
  The theorems below hold for every physics library, material and root finder. To run the
  embedding on numbers, the following instances are used. \<open>hc_demo\<close> is a stand-in with
  rational formulas of the usual shape (it is not helicoil); its record constructor keeps
  its ten arguments. \<open>root_probe\<close> is the simplest root finder there is: it evaluates the
  residual once, at the initial guess, and reports success when every residual is zero.
\<close>

record coil_args =
  ca_label :: string
  ca_d :: real
  ca_D :: real
  ca_n :: real
  ca_F :: real
  ca_L :: real
  ca_L_min :: real
  ca_lo_amp :: real
  ca_hi_amp :: real
  ca_mat :: material

definition mat_demo :: material where
  "mat_demo = \<lparr> mat_G = 8000, mat_E = 20000, solid_stress_limit = (\<lambda>d. 300 - 25 * d) \<rparr>"

definition hc_demo :: "coil_args helicoil" where
  "hc_demo =
     \<lparr> hc_solid_length = (\<lambda>n d. n * d),
       hc_Sa_min_reserve_length = (\<lambda>D d n. n * (D + d) / 50),
       hc_axial_rate = (\<lambda>G d D n. G * d ^ 4 / (8 * D ^ 3 * n)),
       hc_axial_stress_static = (\<lambda>D d F. 5 * D * F / (2 * d ^ 3)),
       hc_buckling_deflection = (\<lambda>G E D L0 nu. L0 / 2 + nu * D * G / E),
       hc_coil_data = (\<lambda>label d D n F L L_min lo hi mat.
          \<lparr> ca_label = label, ca_d = d, ca_D = D, ca_n = n, ca_F = F, ca_L = L,
            ca_L_min = L_min, ca_lo_amp = lo, ca_hi_amp = hi, ca_mat = mat \<rparr>) \<rparr>"

definition root_probe :: root_finder where
  "root_probe f x0 =
     (case f x0 of
        Inl e \<Rightarrow> Inl e
      | Inr v \<Rightarrow> Inr \<lparr> sol_x = x0, sol_success = list_all (\<lambda>r. r = Fin 0) v,
                       sol_status = (if list_all (\<lambda>r. r = Fin 0) v then 1 else 5),
                       sol_message = [], sol_fun = v, sol_nfev = 1 \<rparr>)"

definition nest_demo :: TwoCoilSetLength where
  "nest_demo =
     \<lparr> self_mat = mat_demo, self_end_con = 1/2, self_R = 5, self_F = 42, self_L = 12,
       self_coil_gap = 1, self_max_comp = 2, self_lo_cycle_amp = 1, self_hi_cycle_amp = 1/2,
       self_comp_res = 26/25, self_solid_str_res = 100,
       self_x0 = [12, 2, 4, 20, 1, 8, 22] \<rparr>"

definition nest_bad :: TwoCoilSetLength where
  "nest_bad = nest_demo \<lparr> self_R := - 5 \<rparr>"

definition sol_demo :: sol where
  "sol_demo = \<lparr> sol_x = [12, 2, 4, 20, 1, 8, 22], sol_success = True, sol_status = 1,
                 sol_message = [],
                 sol_fun = [Fin 0, Fin 0, Fin 0, Fin 0, Fin 0, Fin 0, Fin 0], sol_nfev = 1 \<rparr>"

definition sol_bad :: sol where
  "sol_bad = \<lparr> sol_x = [12, 2, 4, 20, 1, 8, 22], sol_success = False, sol_status = 5,
                sol_message = [],
                sol_fun = [Fin 10, Fin 0, Fin 0, Fin 0, Fin 0, Fin 0, Fin 0], sol_nfev = 1 \<rparr>"

text \<open>
  \<open>nest_demo\<close> is solved exactly by its own initial guess; \<open>nest_bad\<close> is the same
  configuration with a negative target rate, and \<open>sol_demo\<close>, \<open>sol_bad\<close> are what
  \<open>root_probe\<close> returns for the two.
\<close>

text \<open>
  The stand-in library and material with every operation rounded by \<open>rd\<close>, and the
  configuration of the second numeric example: \<^verbatim>\<open>design_load = 30.85\<close>,
  \<^verbatim>\<open>design_length = 14.23\<close>, \<^verbatim>\<open>max_compression = 4.23\<close>,
  \<^verbatim>\<open>compression_defln_reserve = 1.04\<close>, each literal being the double nearest to it.
\<close>

definition mat_demo_rounded :: "(real \<Rightarrow> real) \<Rightarrow> material" where
  "mat_demo_rounded rd =
     \<lparr> mat_G = 8000, mat_E = 20000, solid_stress_limit = (\<lambda>d. rd (300 - rd (25 * d))) \<rparr>"

definition hc_demo_rounded :: "(real \<Rightarrow> real) \<Rightarrow> coil_args helicoil" where
  "hc_demo_rounded rd =
     \<lparr> hc_solid_length = (\<lambda>n d. rd (n * d)),
       hc_Sa_min_reserve_length = (\<lambda>D d n. rd (rd (n * rd (D + d)) / 50)),
       hc_axial_rate = (\<lambda>G d D n. rd (rd (G * rd (d ^ 4)) / rd (rd (8 * rd (D ^ 3)) * n))),
       hc_axial_stress_static = (\<lambda>D d F. rd (rd (rd (5 * D) * F) / rd (2 * rd (d ^ 3)))),
       hc_buckling_deflection =
          (\<lambda>G E D L0 nu. rd (rd (L0 / 2) + rd (rd (rd (nu * D) * G) / E))),
       hc_coil_data = (\<lambda>label d D n F L L_min lo hi mat.
          \<lparr> ca_label = label, ca_d = d, ca_D = D, ca_n = n, ca_F = F, ca_L = L,
            ca_L_min = L_min, ca_lo_amp = lo, ca_hi_amp = hi, ca_mat = mat \<rparr>) \<rparr>"

definition nest_f64 :: TwoCoilSetLength where
  "nest_f64 =
     \<lparr> self_mat = mat_demo_rounded f64, self_end_con = 1/2, self_R = 5,
       self_F = f64 (617/20), self_L = f64 (1423/100),
       self_coil_gap = 1, self_max_comp = f64 (423/100), self_lo_cycle_amp = 1,
       self_hi_cycle_amp = 1/2, self_comp_res = f64 (26/25), self_solid_str_res = 100,
       self_x0 = [12, 2, 4, 20, 1, 8, 22] \<rparr>"


section \<open>Properties\<close>

subsection \<open>Evaluations shared by the concrete instances\<close>

lemma error_demo_zero:
  "error hc_demo nest_demo [12, 2, 4, 20, 1, 8, 22]
     = Inr [Fin 0, Fin 0, Fin 0, Fin 0, Fin 0, Fin 0, Fin 0]"
  by (simp add: hc_demo_def nest_demo_def mat_demo_def error_geometry_def error_preload_def
      np_div_def Let_def)

lemma error_bad_residual:
  "error hc_demo nest_bad [12, 2, 4, 20, 1, 8, 22]
     = Inr [Fin 10, Fin 0, Fin 0, Fin 0, Fin 0, Fin 0, Fin 0]"
  by (simp add: hc_demo_def nest_bad_def nest_demo_def mat_demo_def error_geometry_def
      error_preload_def np_div_def Let_def)

lemma root_probe_demo: "root_probe (error hc_demo nest_demo) (self_x0 nest_demo) = Inr sol_demo"
proof -
  have "self_x0 nest_demo = [12, 2, 4, 20, 1, 8, 22]"
    by (simp add: nest_demo_def)
  then show ?thesis
    by (simp add: root_probe_def error_demo_zero sol_demo_def del: error.simps)
qed

lemma root_probe_bad: "root_probe (error hc_demo nest_bad) (self_x0 nest_bad) = Inr sol_bad"
proof -
  have "self_x0 nest_bad = [12, 2, 4, 20, 1, 8, 22]"
    by (simp add: nest_bad_def nest_demo_def)
  then show ?thesis
    by (simp add: root_probe_def error_bad_residual sol_bad_def del: error.simps)
qed

lemma solution_forces_demo:
  "solution_forces hc_demo nest_demo 12 2 4 20 1 8 22 = (10, 5, 32, 10)"
  by (simp add: solution_forces_def solution_geometry_def solution_preload_def
      nest_demo_def hc_demo_def mat_demo_def)

lemma length_seven:
  "length xs = 7 \<Longrightarrow> \<exists>a b c d e f g. xs = [a, b, c, d, e, f, g]"
  by (auto simp add: eval_nat_numeral length_Suc_conv)

lemma post_process_Inl:
  "post_process hc self xs = Inl e \<Longrightarrow> length xs \<noteq> 7 \<and> e = ValueError"
  by (cases "(hc, self, xs)" rule: post_process.cases)
     (auto simp add: Let_def split: prod.splits)

lemma post_process_True:
  "post_process hc self xs = Inr (b, p, q) \<Longrightarrow> b"
  by (cases "(hc, self, xs)" rule: post_process.cases)
     (auto simp add: Let_def split: prod.splits)

text \<open>With the identity for the rounding, the rounded model is the exact one.\<close>

lemma np_sub_rounded_id: "np_sub_rounded (\<lambda>x. x) a b = np_sub a b"
  by (cases "(a, b)" rule: np_sub.cases) simp_all

lemma error_rounded_id:
  "error_rounded (\<lambda>x. x) hc self [OD, do, No, L0o, di, Ni, L0i]
     = error hc self [OD, do, No, L0o, di, Ni, L0i]"
  by (simp add: Let_def np_sub_rounded_id np_div_rounded_def np_div_def
      error_geometry_def error_preload_def)

lemma solution_forces_rounded_id:
  "solution_forces_rounded (\<lambda>x. x) hc self OD do No L0o di Ni L0i
     = solution_forces hc self OD do No L0o di Ni L0i"
  by (simp add: solution_forces_rounded_def solution_forces_def solution_geometry_def
      solution_preload_def Let_def)

lemma hc_demo_rounded_id: "hc_demo_rounded (\<lambda>x. x) = hc_demo"
  by (simp add: hc_demo_rounded_def hc_demo_def)

text \<open>The roundings that occur in the second numeric example.\<close>

lemma f64_values:
  "f64 10 = 10"
  "f64 (10088063165309911 / 1125899906842624) = 1261007895663739 / 140737488355328"
  "f64 8 = 8"
  "f64 2 = 2"
  "f64 6 = 6"
  "f64 5 = 5"
  "f64 12 = 12"
  "f64 48 = 48"
  "f64 (24 / 25) = 1080863910568919 / 1125899906842624"
  "f64 16 = 16"
  "f64 128000 = 128000"
  "f64 1000 = 1000"
  "f64 8000 = 8000"
  "f64 32000 = 32000"
  "f64 4 = 4"
  "f64 1 = 1"
  "f64 125 = 125"
  "f64 (4341751515761869 / 140737488355328) = 4341751515761869 / 140737488355328"
  "f64 (4060276539051213 / 140737488355328) = 4060276539051213 / 140737488355328"
  "f64 (4060276539051213 / 703687441776640) = 6496442462481941 / 1125899906842624"
  "f64 (16021555674370539 / 1125899906842624) = 4005388918592635 / 281474976710656"
  "f64 50 = 50"
  "f64 2400 = 2400"
  "f64 150 = 150"
  "f64 14 = 14"
  "f64 25 = 25"
  "f64 350 = 350"
  "f64 175 = 175"
  "f64 250 = 250"
  "f64 100 = 100"
  "f64 275 = 275"
  "f64 11 = 11"
  "f64 (5 / 2) = 5 / 2"
  "f64 20000 = 20000"
  "f64 0 = 0"
  "f64 (1624110615620485 / 281474976710656) = 1624110615620485 / 281474976710656"
  "f64 (1624110615620485 / 70368744177664) = 1624110615620485 / 70368744177664"
  "f64 (2187060569041797 / 281474976710656) = 2187060569041797 / 281474976710656"
  "f64 (8683503031523737 / 281474976710656) = 8683503031523737 / 281474976710656"
  "f64 (617 / 20) = 4341751515761869 / 140737488355328"
  "f64 (1423 / 100) = 4005388918592635 / 281474976710656"
  "f64 (423 / 100) = 1190639151486075 / 281474976710656"
  "f64 (26 / 25) = 1170935903116329 / 1125899906842624"
  "f64 (1 / 2) = 1 / 2"
  by code_simp+

lemma error_f64_zero:
  "error_rounded f64 (hc_demo_rounded f64) nest_f64 [12, 2, 4, 20, 1, 8, 22]
     = Inr [Fin 0, Fin 0, Fin 0, Fin 0, Fin 0, Fin 0, Fin 0]"
  by (simp add: hc_demo_rounded_def nest_f64_def mat_demo_rounded_def f64_values
      np_div_rounded_def)

lemma solution_forces_f64:
  "solution_forces_rounded f64 (hc_demo_rounded f64) nest_f64 12 2 4 20 1 8 22
     = (10, 5, 1624110615620485 / 70368744177664, 2187060569041797 / 281474976710656)"
  by (simp add: solution_forces_rounded_def hc_demo_rounded_def nest_f64_def
      mat_demo_rounded_def f64_values)

subsection \<open>The residual vector\<close>

text \<open>
  Claim C1. For every vector of seven unknowns, \<open>error\<close> returns seven residuals, in this
  order: combined rate minus target rate; outer and inner minimum length (solid length plus
  reserve length) minus the target minimum length \<open>(L - max_comp) - comp_res\<close>; the length
  at the design load, \<open>L_at_F = L1 - F2 / (Ro + Ri)\<close> with \<open>F2 = F - Fo1 - Fi1\<close>, minus the
  design length; outer and inner solid-stress reserve minus the required reserve; buckling
  length minus the minimum service length. No condition is put on the vector: where
  \<open>Ro + Ri = 0\<close> the fourth residual is a non-finite value, as the quotient is, and
  elsewhere it is the number \<open>L1 - F2 / (Ro + Ri) - L\<close>.
\<close>

theorem error_residuals:
  assumes "Do = OD - do"
    and "Di = Do - do - 2 * self_coil_gap self - di"
    and "Ro = hc_axial_rate hc (mat_G (self_mat self)) do Do No"
    and "Ri = hc_axial_rate hc (mat_G (self_mat self)) di Di Ni"
    and "Lco = hc_solid_length hc No do"
    and "Lci = hc_solid_length hc Ni di"
    and "(Fo1, Fi1, L1) = error_preload Ro Ri L0o L0i"
    and "F2 = self_F self - Fo1 - Fi1"
    and "L_at_F = np_sub (Fin L1) (np_div F2 (Ro + Ri))"
  shows "error hc self [OD, do, No, L0o, di, Ni, L0i] =
     Inr [Fin (Ro + Ri - self_R self),
          Fin ((Lco + hc_Sa_min_reserve_length hc Do do No)
             - ((self_L self - self_max_comp self) - self_comp_res self)),
          Fin ((Lci + hc_Sa_min_reserve_length hc Di di Ni)
             - ((self_L self - self_max_comp self) - self_comp_res self)),
          np_sub L_at_F (Fin (self_L self)),
          Fin ((solid_stress_limit (self_mat self) do
             - hc_axial_stress_static hc Do do (Ro * (L0o - Lco))) - self_solid_str_res self),
          Fin ((solid_stress_limit (self_mat self) di
             - hc_axial_stress_static hc Di di (Ri * (L0i - Lci))) - self_solid_str_res self),
          Fin ((L0i - hc_buckling_deflection hc (mat_G (self_mat self))
                   (mat_E (self_mat self)) Di L0i (self_end_con self))
             - (self_L self - self_max_comp self))] \<and>
     np_sub L_at_F (Fin (self_L self)) =
       (if Ro + Ri = 0 then NonFinite else Fin (L1 - F2 / (Ro + Ri) - self_L self))"
proof -
  from assms(7) have "error_preload Ro Ri L0o L0i = (Fo1, Fi1, L1)" by simp
  with assms(1-6,8,9) show ?thesis
    by (simp add: error_geometry_def np_div_def Let_def)
qed

theorem error_residuals_witness:
  "error hc_demo nest_demo [12, 2, 4, 22, 1, 8, 20]
     = Inr [Fin 0, Fin 0, Fin 0, Fin (6 / 5), Fin (- 25), Fin 25, Fin (- 1)] \<and>
   error hc_demo nest_demo [12, 2, 4, 22, 1, - 2, 20]
     = Inr [Fin (- 5), Fin 0, Fin (- 56 / 5), NonFinite, Fin (- 25), Fin 1275, Fin (- 1)]"
proof -
  have p: "(8, 0, 20) = error_preload 4 1 22 20" "(8, 0, 20) = error_preload 4 (- 4) 22 20"
    by (simp_all add: error_preload_def)
  have r: "4 = hc_axial_rate hc_demo (mat_G (self_mat nest_demo)) 2 10 4"
          "1 = hc_axial_rate hc_demo (mat_G (self_mat nest_demo)) 1 5 8"
    by (simp_all add: hc_demo_def nest_demo_def mat_demo_def)
  have r': "- 4 = hc_axial_rate hc_demo (mat_G (self_mat nest_demo)) 1 5 (- 2)"
    by (simp add: hc_demo_def nest_demo_def mat_demo_def)
  have l: "8 = hc_solid_length hc_demo 4 2" "8 = hc_solid_length hc_demo 8 1"
    by (simp_all add: hc_demo_def)
  have l': "- 2 = hc_solid_length hc_demo (- 2) 1"
    by (simp add: hc_demo_def)
  have g: "(10::real) = 12 - 2" "(5::real) = 10 - 2 - 2 * self_coil_gap nest_demo - 1"
    by (simp_all add: nest_demo_def)
  have f: "(34::real) = self_F nest_demo - 8 - 0"
    by (simp add: nest_demo_def)
  have q: "Fin (66 / 5) = np_sub (Fin 20) (np_div 34 (4 + 1))"
          "NonFinite = np_sub (Fin 20) (np_div 34 (4 + - 4))"
    by (simp_all add: np_div_def)
  from error_residuals [OF g r l p(1) f q(1)] error_residuals [OF g r(1) r' l(1) l' p(2) f q(2)]
  show ?thesis
    by (simp add: hc_demo_def nest_demo_def mat_demo_def)
qed


subsection \<open>The free-length branch\<close>

text \<open>
  Claim C2. In the residual function the branch is taken on the strict comparison
  \<open>L0o > L0i\<close>: then the outer coil is preloaded, \<open>Fo1 = Ro * (L0o - L0i)\<close>, \<open>Fi1 = 0\<close> and
  \<open>L1 = L0i\<close>. Otherwise \<open>Fo1 = 0\<close>, \<open>Fi1 = Ri * (L0i - L0o)\<close> and \<open>L1 = L0o\<close>; equal free
  lengths take this second branch, with no preload on either coil.
\<close>

theorem error_preload_branch:
  "(L0o > L0i \<longrightarrow> error_preload Ro Ri L0o L0i = (Ro * (L0o - L0i), 0, L0i)) \<and>
   (\<not> L0o > L0i \<longrightarrow> error_preload Ro Ri L0o L0i = (0, Ri * (L0i - L0o), L0o)) \<and>
   error_preload Ro Ri L0 L0 = (0, 0, L0)"
  by (simp add: error_preload_def)

theorem error_preload_branch_witness:
  "error_preload 4 1 22 20 = (8, 0, 20) \<and> error_preload 4 1 20 22 = (0, 2, 20) \<and>
   error_preload 4 1 20 20 = (0, 0, 20)"
  using error_preload_branch [of 20 22 4 1 20] error_preload_branch [of 22 20 4 1 20]
  by simp

text \<open>
  Claim C10. At both places where the branch is written, \<open>L1\<close> is the smaller of the two
  free lengths, one of the two preloads is zero, each preload is its coil's rate times the
  positive part of the free-length difference, and both preloads are nonnegative when both
  rates are.
\<close>

theorem preload_invariants:
  assumes "(Fo1, Fi1, L1) = error_preload Ro Ri L0o L0i \<or>
           (Fo1, Fi1, L1) = solution_preload Ro Ri L0o L0i"
  shows "L1 = min L0o L0i \<and> (Fo1 = 0 \<or> Fi1 = 0) \<and>
         Fo1 = Ro * max 0 (L0o - L0i) \<and> Fi1 = Ri * max 0 (L0i - L0o) \<and>
         Fo1 + Fi1 = (if L0o > L0i then Ro else Ri) * \<bar>L0o - L0i\<bar> \<and>
         (0 \<le> Ro \<and> 0 \<le> Ri \<longrightarrow> 0 \<le> Fo1 \<and> 0 \<le> Fi1)"
  using assms
  by (auto simp add: error_preload_def solution_preload_def split: if_splits)

theorem preload_invariants_witness:
  "error_preload 4 1 22 20 = (8, 0, 20) \<and> (20::real) = min 22 20 \<and>
   (8::real) = 4 * max 0 (22 - 20) \<and> (0::real) = 1 * max 0 (20 - 22) \<and>
   solution_preload 4 1 20 22 = (0, 2, 20) \<and> (2::real) = 1 * max 0 (22 - 20)"
proof -
  have a: "(8, 0, 20) = error_preload 4 1 22 20"
    by (simp add: error_preload_def)
  have b: "(0, 2, 20) = solution_preload 4 1 20 22"
    by (simp add: solution_preload_def)
  from a b preload_invariants [of 8 0 20 4 1 22 20] preload_invariants [of 0 2 20 4 1 20 22]
  show ?thesis by simp
qed

subsection \<open>The logic written twice\<close>

text \<open>
  Claim C4. The branch in \<^verbatim>\<open>get_solution\<close> computes the same \<open>(Fo1, Fi1, L1)\<close> as the one
  in \<^verbatim>\<open>error\<close> for all rates and free lengths, and the two places compute the same mean
  diameters from the same \<open>OD\<close>, \<open>do\<close> and \<open>di\<close>.
\<close>

theorem duplicated_logic_agrees:
  "solution_preload Ro Ri L0o L0i = error_preload Ro Ri L0o L0i \<and>
   solution_geometry self OD do di = error_geometry self OD do di"
  by (simp add: solution_preload_def error_preload_def solution_geometry_def error_geometry_def)

text \<open>
  Claim C5. In the residual function and in the post-processing, the outer mean diameter
  is \<open>Do = OD - do\<close> and the inner one is \<open>Di = Do - do - 2 * coil_gap - di\<close>.
\<close>

theorem mean_diameters:
  "(error_geometry self OD do di = (Do, Di)
      \<longrightarrow> Do = OD - do \<and> Di = Do - do - 2 * self_coil_gap self - di) \<and>
   (solution_geometry self OD do di = (Do, Di)
      \<longrightarrow> Do = OD - do \<and> Di = Do - do - 2 * self_coil_gap self - di) \<and>
   (solution_forces hc self OD do No L0o di Ni L0i = (Do, Di, Fo, Fi)
      \<longrightarrow> Do = OD - do \<and> Di = Do - do - 2 * self_coil_gap self - di)"
  by (auto simp add: error_geometry_def solution_geometry_def solution_forces_def Let_def
      split: prod.splits)

theorem mean_diameters_witness:
  "error_geometry nest_demo 12 2 1 = (10, 5) \<and> solution_geometry nest_demo 12 2 1 = (10, 5) \<and>
   solution_forces hc_demo nest_demo 12 2 4 20 1 8 22 = (10, 5, 32, 10) \<and>
   (10::real) = 12 - 2 \<and> (5::real) = 10 - 2 - 2 * self_coil_gap nest_demo - 1"
proof -
  have a: "error_geometry nest_demo 12 2 1 = (10, 5)"
    by (simp add: error_geometry_def nest_demo_def)
  have b: "solution_geometry nest_demo 12 2 1 = (10, 5)"
    by (simp add: solution_geometry_def nest_demo_def)
  have c: "solution_forces hc_demo nest_demo 12 2 4 20 1 8 22 = (10, 5, 32, 10)"
    by (simp add: solution_forces_def solution_geometry_def solution_preload_def
        nest_demo_def hc_demo_def mat_demo_def)
  from a b c mean_diameters [of nest_demo 12 2 1 10 5 hc_demo 4 20 8 22 32 10]
  show ?thesis by simp
qed

subsection \<open>The residual function raises nothing\<close>



subsection \<open>Solving and the carried loads\<close>

text \<open>
  Claim C3. When the root finder succeeds, the post-processing takes the converged vector,
  recomputes the diameters and rates, applies the free-length branch and passes
  \<open>Fo = Fo1 + Ro * (L1 - L)\<close> to the record constructor for the outer coil and
  \<open>Fi = Fi1 + Ri * (L1 - L)\<close> to the one for the inner coil.
\<close>

theorem get_solution_forces:
  assumes "root_fn (error hc self) (self_x0 self) = Inr s"
    and "sol_success s"
    and "sol_x s = [OD, do, No, L0o, di, Ni, L0i]"
    and "Do = OD - do"
    and "Di = Do - do - 2 * self_coil_gap self - di"
    and "Ro = hc_axial_rate hc (mat_G (self_mat self)) do Do No"
    and "Ri = hc_axial_rate hc (mat_G (self_mat self)) di Di Ni"
    and "(Fo1, Fi1, L1) = (if L0o > L0i then (Ro * (L0o - L0i), 0, L0i)
                           else (0, Ri * (L0i - L0o), L0o))"
    and "Fo = Fo1 + Ro * (L1 - self_L self)"
    and "Fi = Fi1 + Ri * (L1 - self_L self)"
  shows "get_solution hc root_fn self =
     Inr (True,
          CoilData (hc_coil_data hc ''Outer Coil'' do Do No Fo (self_L self)
                      (self_L self - self_max_comp self)
                      (self_lo_cycle_amp self) (self_hi_cycle_amp self) (self_mat self)),
          CoilData (hc_coil_data hc ''Inner Coil'' di Di Ni Fi (self_L self)
                      (self_L self - self_max_comp self)
                      (self_lo_cycle_amp self) (self_hi_cycle_amp self) (self_mat self)))"
proof -
  from assms(8) have "solution_preload Ro Ri L0o L0i = (Fo1, Fi1, L1)"
    by (simp add: solution_preload_def)
  with assms(4-7,9,10)
  have "solution_forces hc self OD do No L0o di Ni L0i = (Do, Di, Fo, Fi)"
    by (simp add: solution_forces_def solution_geometry_def Let_def)
  with assms(1-3) show ?thesis
    by (simp add: get_solution_def Let_def)
qed

theorem get_solution_forces_witness:
  "get_solution hc_demo root_probe nest_demo =
     Inr (True,
          CoilData \<lparr> ca_label = ''Outer Coil'', ca_d = 2, ca_D = 10, ca_n = 4, ca_F = 32,
                     ca_L = 12, ca_L_min = 10, ca_lo_amp = 1, ca_hi_amp = 1/2,
                     ca_mat = mat_demo \<rparr>,
          CoilData \<lparr> ca_label = ''Inner Coil'', ca_d = 1, ca_D = 5, ca_n = 8, ca_F = 10,
                     ca_L = 12, ca_L_min = 10, ca_lo_amp = 1, ca_hi_amp = 1/2,
                     ca_mat = mat_demo \<rparr>)"
proof -
  have s: "sol_success sol_demo" "sol_x sol_demo = [12, 2, 4, 20, 1, 8, 22]"
    by (simp_all add: sol_demo_def)
  have g: "(10::real) = 12 - 2" "(5::real) = 10 - 2 - 2 * self_coil_gap nest_demo - 1"
    by (simp_all add: nest_demo_def)
  have r: "4 = hc_axial_rate hc_demo (mat_G (self_mat nest_demo)) 2 10 4"
          "1 = hc_axial_rate hc_demo (mat_G (self_mat nest_demo)) 1 5 8"
    by (simp_all add: hc_demo_def nest_demo_def mat_demo_def)
  have p: "((0::real), (2::real), (20::real)) =
             (if (20::real) > 22 then (4 * (20 - 22), 0, 22) else (0, 1 * (22 - 20), 20))"
    by simp
  have f: "(32::real) = 0 + 4 * (20 - self_L nest_demo)"
          "(10::real) = 2 + 1 * (20 - self_L nest_demo)"
    by (simp_all add: nest_demo_def)
  from get_solution_forces [where root_fn = root_probe, OF root_probe_demo s g r p f]
  show ?thesis
    by (simp add: hc_demo_def nest_demo_def)
qed

text \<open>
  Claim C7. When the root finder returns without success, \<^verbatim>\<open>get_solution\<close> returns
  \<open>(False, sol, None)\<close>: the solver's own result in the place of the first record, and no
  exception. When it returns with success (a vector of seven entries), \<^verbatim>\<open>get_solution\<close>
  returns \<open>True\<close> and exactly two coil records: first the one built for the outer coil,
  from the outer wire diameter, mean diameter, coil count and load, then the one built for
  the inner coil from the inner ones.
\<close>

theorem get_solution_outcomes:
  assumes "root_fn (error hc self) (self_x0 self) = Inr s"
    and "Do = OD - do"
    and "Di = Do - do - 2 * self_coil_gap self - di"
    and "Ro = hc_axial_rate hc (mat_G (self_mat self)) do Do No"
    and "Ri = hc_axial_rate hc (mat_G (self_mat self)) di Di Ni"
    and "Fo = (if L0o > L0i then Ro * (L0o - L0i) else 0)
                + Ro * ((if L0o > L0i then L0i else L0o) - self_L self)"
    and "Fi = (if L0o > L0i then 0 else Ri * (L0i - L0o))
                + Ri * ((if L0o > L0i then L0i else L0o) - self_L self)"
  shows "(\<not> sol_success s \<longrightarrow>
            get_solution hc root_fn self = Inr (False, SolverResult s, PyNone)) \<and>
         (sol_success s \<and> sol_x s = [OD, do, No, L0o, di, Ni, L0i] \<longrightarrow>
            get_solution hc root_fn self =
               Inr (True,
                    CoilData (hc_coil_data hc ''Outer Coil'' do Do No Fo
                       (self_L self) (self_L self - self_max_comp self)
                       (self_lo_cycle_amp self) (self_hi_cycle_amp self) (self_mat self)),
                    CoilData (hc_coil_data hc ''Inner Coil'' di Di Ni Fi
                       (self_L self) (self_L self - self_max_comp self)
                       (self_lo_cycle_amp self) (self_hi_cycle_amp self) (self_mat self))))"
proof (intro conjI impI)
  assume "\<not> sol_success s"
  with assms(1) show "get_solution hc root_fn self = Inr (False, SolverResult s, PyNone)"
    by (simp add: get_solution_def)
next
  assume a: "sol_success s \<and> sol_x s = [OD, do, No, L0o, di, Ni, L0i]"
  from assms(2-7)
  have "solution_forces hc self OD do No L0o di Ni L0i = (Do, Di, Fo, Fi)"
    by (simp add: solution_forces_def solution_geometry_def solution_preload_def Let_def)
  with assms(1) a
  show "get_solution hc root_fn self =
               Inr (True,
                    CoilData (hc_coil_data hc ''Outer Coil'' do Do No Fo
                       (self_L self) (self_L self - self_max_comp self)
                       (self_lo_cycle_amp self) (self_hi_cycle_amp self) (self_mat self)),
                    CoilData (hc_coil_data hc ''Inner Coil'' di Di Ni Fi
                       (self_L self) (self_L self - self_max_comp self)
                       (self_lo_cycle_amp self) (self_hi_cycle_amp self) (self_mat self)))"
    by (simp add: get_solution_def Let_def)
qed

theorem get_solution_outcomes_witness:
  "get_solution hc_demo root_probe nest_bad = Inr (False, SolverResult sol_bad, PyNone) \<and>
   get_solution hc_demo root_probe nest_demo =
      Inr (True,
           CoilData \<lparr> ca_label = ''Outer Coil'', ca_d = 2, ca_D = 10, ca_n = 4, ca_F = 32,
                      ca_L = 12, ca_L_min = 10, ca_lo_amp = 1, ca_hi_amp = 1/2,
                      ca_mat = mat_demo \<rparr>,
           CoilData \<lparr> ca_label = ''Inner Coil'', ca_d = 1, ca_D = 5, ca_n = 8, ca_F = 10,
                      ca_L = 12, ca_L_min = 10, ca_lo_amp = 1, ca_hi_amp = 1/2,
                      ca_mat = mat_demo \<rparr>)"
proof -
  have b: "\<not> sol_success sol_bad"
    by (simp add: sol_bad_def)
  have d: "sol_success sol_demo \<and> sol_x sol_demo = [12, 2, 4, 20, 1, 8, 22]"
    by (simp add: sol_demo_def)
  have g: "(10::real) = 12 - 2" "(5::real) = 10 - 2 - 2 * self_coil_gap nest_demo - 1"
    by (simp_all add: nest_demo_def)
  have g': "(10::real) = 12 - 2" "(5::real) = 10 - 2 - 2 * self_coil_gap nest_bad - 1"
    by (simp_all add: nest_demo_def nest_bad_def)
  have r: "4 = hc_axial_rate hc_demo (mat_G (self_mat nest_demo)) 2 10 4"
          "1 = hc_axial_rate hc_demo (mat_G (self_mat nest_demo)) 1 5 8"
    by (simp_all add: hc_demo_def nest_demo_def mat_demo_def)
  have r': "4 = hc_axial_rate hc_demo (mat_G (self_mat nest_bad)) 2 10 4"
           "1 = hc_axial_rate hc_demo (mat_G (self_mat nest_bad)) 1 5 8"
    by (simp_all add: hc_demo_def nest_demo_def nest_bad_def mat_demo_def)
  have f: "(32::real) = (if (20::real) > 22 then 4 * (20 - 22) else 0)
                + 4 * ((if (20::real) > 22 then 22 else 20) - self_L nest_demo)"
          "(10::real) = (if (20::real) > 22 then 0 else 1 * (22 - 20))
                + 1 * ((if (20::real) > 22 then 22 else 20) - self_L nest_demo)"
    by (simp_all add: nest_demo_def)
  have f': "(32::real) = (if (20::real) > 22 then 4 * (20 - 22) else 0)
                + 4 * ((if (20::real) > 22 then 22 else 20) - self_L nest_bad)"
          "(10::real) = (if (20::real) > 22 then 0 else 1 * (22 - 20))
                + 1 * ((if (20::real) > 22 then 22 else 20) - self_L nest_bad)"
    by (simp_all add: nest_demo_def nest_bad_def)
  from get_solution_outcomes [where root_fn = root_probe, OF root_probe_bad g' r' f'] b
  have 1: "get_solution hc_demo root_probe nest_bad = Inr (False, SolverResult sol_bad, PyNone)"
    by simp
  from get_solution_outcomes [where root_fn = root_probe, OF root_probe_demo g r f] d
  have 2: "get_solution hc_demo root_probe nest_demo =
      Inr (True,
           CoilData \<lparr> ca_label = ''Outer Coil'', ca_d = 2, ca_D = 10, ca_n = 4, ca_F = 32,
                      ca_L = 12, ca_L_min = 10, ca_lo_amp = 1, ca_hi_amp = 1/2,
                      ca_mat = mat_demo \<rparr>,
           CoilData \<lparr> ca_label = ''Inner Coil'', ca_d = 1, ca_D = 5, ca_n = 8, ca_F = 10,
                      ca_L = 12, ca_L_min = 10, ca_lo_amp = 1, ca_hi_amp = 1/2,
                      ca_mat = mat_demo \<rparr>)"
    by (simp add: hc_demo_def nest_demo_def)
  from 1 2 show ?thesis by simp
qed

text \<open>
  Claim C9, as stated: at every vector where all seven residuals are exactly zero, the two
  loads of the post-processing add up to the design load. In the arithmetic of the code,
  binary64, they need not: for the design load 30.85, design length 14.23 and maximal
  compression 4.23 all seven residuals at \<open>[12, 2, 4, 20, 1, 8, 22]\<close> are \<open>0.0\<close>, and
  \<open>Fo + Fi\<close> is 30.849999999999998, one unit in the last place below the design load.
\<close>

theorem rounded_zero_residual_misses_design_load:
  "error_rounded f64 (hc_demo_rounded f64) nest_f64 [12, 2, 4, 20, 1, 8, 22]
     = Inr [Fin 0, Fin 0, Fin 0, Fin 0, Fin 0, Fin 0, Fin 0] \<and>
   solution_forces_rounded f64 (hc_demo_rounded f64) nest_f64 12 2 4 20 1 8 22
     = (10, 5, 1624110615620485 / 70368744177664, 2187060569041797 / 281474976710656) \<and>
   f64 (1624110615620485 / 70368744177664 + 2187060569041797 / 281474976710656)
     = 8683503031523737 / 281474976710656 \<and>
   self_F nest_f64 = 8683503031523738 / 281474976710656 \<and>
   f64 (1624110615620485 / 70368744177664 + 2187060569041797 / 281474976710656)
     \<noteq> self_F nest_f64"
proof -
  have s: "f64 (1624110615620485 / 70368744177664 + 2187060569041797 / 281474976710656)
             = 8683503031523737 / 281474976710656"
    by (simp add: f64_values)
  have d: "self_F nest_f64 = 8683503031523738 / 281474976710656"
    by (simp add: nest_f64_def f64_values)
  from s d have "f64 (1624110615620485 / 70368744177664 + 2187060569041797 / 281474976710656)
                   \<noteq> self_F nest_f64"
    by simp
  with error_f64_zero solution_forces_f64 s d show ?thesis
    by blast
qed

text \<open>
  Claim C9, amended. In exact arithmetic, at every vector where \<open>error\<close> returns seven
  zeros the two loads of the post-processing add up to the design load, \<open>Fo + Fi = F\<close>; in
  the rounded arithmetic of the code the sum can miss the design load in the last place.
\<close>

theorem zero_residual_carries_design_load:
  assumes "error hc self [OD, do, No, L0o, di, Ni, L0i]
             = Inr [Fin 0, Fin 0, Fin 0, Fin 0, Fin 0, Fin 0, Fin 0]"
    and "solution_forces hc self OD do No L0o di Ni L0i = (Do, Di, Fo, Fi)"
  shows "Fo + Fi = self_F self"
proof -
  define D1 where "D1 = OD - do"
  define D2 where "D2 = D1 - do - 2 * self_coil_gap self - di"
  define Ro where "Ro = hc_axial_rate hc (mat_G (self_mat self)) do D1 No"
  define Ri where "Ri = hc_axial_rate hc (mat_G (self_mat self)) di D2 Ni"
  obtain Fo1 Fi1 L1 where p: "error_preload Ro Ri L0o L0i = (Fo1, Fi1, L1)"
    by (cases "error_preload Ro Ri L0o L0i") auto
  then have q: "solution_preload Ro Ri L0o L0i = (Fo1, Fi1, L1)"
    by (simp add: solution_preload_def error_preload_def)
  have ev: "\<exists>v. error hc self [OD, do, No, L0o, di, Ni, L0i] = Inr v \<and>
         v ! 3 = (if Ro + Ri = 0 then NonFinite
                  else Fin (L1 - (self_F self - Fo1 - Fi1) / (Ro + Ri) - self_L self))"
    using p by (simp add: error_geometry_def np_div_def Let_def D1_def D2_def Ro_def Ri_def)
  with assms(1) have nz: "Ro + Ri \<noteq> 0"
    and "L1 - (self_F self - Fo1 - Fi1) / (Ro + Ri) - self_L self = 0"
    by (auto split: if_splits)
  then have e4: "(Ro + Ri) * (L1 - self_L self) = self_F self - Fo1 - Fi1"
    by (simp add: field_simps)
  from assms(2) q have "Fo = Fo1 + Ro * (L1 - self_L self)" "Fi = Fi1 + Ri * (L1 - self_L self)"
    by (auto simp add: solution_forces_def solution_geometry_def Let_def
        D1_def D2_def Ro_def Ri_def)
  with e4 show ?thesis
    by (simp add: algebra_simps)
qed

theorem zero_residual_carries_design_load_witness:
  "error hc_demo nest_demo [12, 2, 4, 20, 1, 8, 22]
     = Inr [Fin 0, Fin 0, Fin 0, Fin 0, Fin 0, Fin 0, Fin 0] \<and>
   solution_forces hc_demo nest_demo 12 2 4 20 1 8 22 = (10, 5, 32, 10) \<and>
   (32::real) + 10 = self_F nest_demo"
  using zero_residual_carries_design_load [OF error_demo_zero solution_forces_demo]
    error_demo_zero solution_forces_demo
  by simp

subsection \<open>Configurations are not validated\<close>

text \<open>
  Claim C8, as stated: a configuration with a non-positive target rate fails before the
  root finder runs, with an error of its own. It does not: the constructor accepts the
  target rate \<open>-5\<close>, the root finder is run (one residual evaluation), and what comes back
  is the ordinary result for a solver that did not converge.
\<close>

theorem malformed_configuration_accepted:
  "init mat_demo (- 5) 42 12 1 2 1 (1/2) (1/2) (26/25) 100 [12, 2, 4, 20, 1, 8, 22]
     = Inr nest_bad \<and>
   self_R nest_bad = - 5 \<and>
   get_solution hc_demo root_probe nest_bad = Inr (False, SolverResult sol_bad, PyNone) \<and>
   sol_nfev sol_bad = 1"
proof -
  have "init mat_demo (- 5) 42 12 1 2 1 (1/2) (1/2) (26/25) 100 [12, 2, 4, 20, 1, 8, 22]
          = Inr nest_bad"
    by (simp add: init_def nest_bad_def nest_demo_def)
  moreover have "self_R nest_bad = - 5"
    by (simp add: nest_bad_def)
  moreover have "get_solution hc_demo root_probe nest_bad
                   = Inr (False, SolverResult sol_bad, PyNone)"
    using root_probe_bad by (simp add: get_solution_def sol_bad_def)
  moreover have "sol_nfev sol_bad = 1"
    by (simp add: sol_bad_def)
  ultimately show ?thesis by simp
qed

text \<open>
  Claim C8, amended. The constructor stores each of its twelve arguments in its own field,
  unchanged, and never fails. \<^verbatim>\<open>get_solution\<close> hands every configuration to the root finder:
  with the functions of the physics library taken to return, an exception it raises is the
  root finder's (or comes from unpacking a solution that does not have seven entries), and
  a result with \<open>False\<close> in front is the root finder's own unsuccessful result.
\<close>

theorem failures_come_from_root_finder:
  "\<exists>self. init m r f l g mc lo hi ec cr sr x0 = Inr self \<and>
      self_mat self = m \<and> self_end_con self = ec \<and> self_R self = r \<and> self_F self = f \<and>
      self_L self = l \<and> self_coil_gap self = g \<and> self_max_comp self = mc \<and>
      self_lo_cycle_amp self = lo \<and> self_hi_cycle_amp self = hi \<and>
      self_comp_res self = cr \<and> self_solid_str_res self = sr \<and> self_x0 self = x0 \<and>
      (\<forall>e. get_solution hc root_fn self = Inl e \<longrightarrow>
         root_fn (error hc self) x0 = Inl e \<or>
         (\<exists>s. root_fn (error hc self) x0 = Inr s \<and> sol_success s \<and>
              length (sol_x s) \<noteq> 7 \<and> e = ValueError)) \<and>
      (\<forall>a b. get_solution hc root_fn self = Inr (False, a, b) \<longrightarrow>
         (\<exists>s. root_fn (error hc self) x0 = Inr s \<and> \<not> sol_success s \<and>
              a = SolverResult s \<and> b = PyNone))"
  by (auto simp add: init_def get_solution_def split: sum.splits if_splits
      dest: post_process_Inl post_process_True)

theorem failures_come_from_root_finder_witness:
  "\<exists>s. root_probe (error hc_demo nest_bad) [12, 2, 4, 20, 1, 8, 22] = Inr s \<and>
       \<not> sol_success s \<and>
       get_solution hc_demo root_probe nest_bad = Inr (False, SolverResult s, PyNone)"
proof -
  have i: "init mat_demo (- 5) 42 12 1 2 1 (1/2) (1/2) (26/25) 100 [12, 2, 4, 20, 1, 8, 22]
             = Inr nest_bad"
    by (simp add: init_def nest_bad_def nest_demo_def)
  have g: "get_solution hc_demo root_probe nest_bad = Inr (False, SolverResult sol_bad, PyNone)"
    using root_probe_bad by (simp add: get_solution_def sol_bad_def)
  from failures_come_from_root_finder
         [of mat_demo "- 5" 42 12 1 2 1 "1/2" "1/2" "26/25" 100 "[12, 2, 4, 20, 1, 8, 22]"
             hc_demo root_probe] i g
  show ?thesis by auto
qed


end
